theory Spec2Isabelle
  imports Complex_Main "HOL-Library.Sublist"
begin

section \<open>Data model\<close>

text \<open>
  The kernel types of the geometry library, as far as the point-cloud stages use them.
  \<open>FT\<close> is the kernel's number type; it is modelled by the reals, so the rounding of
  floating-point multiplication and division is not part of the model.  A point cloud is
  a \<open>std::vector\<close> of points, an oriented point cloud a vector of (point, normal)
  pairs; both are lists here.
\<close>

type_synonym FT = real

datatype Point_3 = Point_3 FT FT FT

datatype Vector_3 = Vector_3 FT FT FT

type_synonym PointList = "Point_3 list"

type_synonym PointVectorPair = "Point_3 \<times> Vector_3"

type_synonym PointVectorList = "PointVectorPair list"

record Sphere_3 =
  center :: Point_3
  squared_radius :: FT

record 'f Surface_3 =
  implicit_function :: 'f
  bounding_sphere_of :: Sphere_3
  error_bound :: FT

record Surface_mesh_default_criteria_3 =
  angle_bound :: FT
  radius_bound :: FT
  distance_bound :: FT

section \<open>Library routines\<close>

text \<open>
  The stages call the routines of the geometry library, whose code is not part of the
  sources.  They are parameters of the model, collected in two records.

  A routine that is handed the iterator pair \<open>begin(), end()\<close> of a vector can assign
  to the elements of the range, but it cannot change the number of elements.  Such a
  routine is therefore given as a function from the contents of the range to the element
  it leaves at each position; \<open>range_assign\<close> stores these elements into the positions
  of the vector.  The routines of the erase-remove kind also return an iterator into the
  range, given as an index counted from \<open>begin()\<close>.

  \<open>pca_estimate_normals\<close> and \<open>mst_orient_normals\<close> are handed the range of
  pairs together with both property maps and can assign to either component of an
  element: each is given as a function from the contents of the range to the pair it
  leaves at each position.

  The stages contain no \<open>throw\<close> and no handler.  The routines of the two records
  return normally; \<open>simplifyCloud_raising\<close> below models simplifyCloud over a grid
  routine that may raise an exception.  \<open>value_initialized\<close> is the pair that
  \<open>resize\<close> appends.
\<close>

record point_set_processing =
  remove_outliers :: "PointList \<Rightarrow> int \<Rightarrow> real \<Rightarrow> (nat \<Rightarrow> Point_3) \<times> nat"
  grid_simplify_point_set :: "PointList \<Rightarrow> real \<Rightarrow> (nat \<Rightarrow> Point_3) \<times> nat"
  jet_smooth_point_set :: "PointList \<Rightarrow> int \<Rightarrow> nat \<Rightarrow> Point_3"
  pca_estimate_normals :: "PointVectorList \<Rightarrow> int \<Rightarrow> nat \<Rightarrow> PointVectorPair"
  mst_orient_normals :: "PointVectorList \<Rightarrow> int \<Rightarrow> (nat \<Rightarrow> PointVectorPair) \<times> nat"
  compute_average_spacing :: "PointList \<Rightarrow> int \<Rightarrow> FT"
  value_initialized :: PointVectorPair

text \<open>
  The Poisson reconstruction routines.  \<open>'wn\<close> is the type of a point with normal,
  \<open>'f\<close> the implicit function object, \<open>'c\<close> the complex embedded in the Delaunay
  triangulation, \<open>'poly\<close> the polyhedron.  \<open>convert\<close> is the helper that copies the
  oriented cloud into a list of points with normals.  \<open>compute_implicit_function\<close>
  returns whether the solver converged, together with the function object it updated.
\<close>

record ('wn, 'f, 'c, 'poly) poisson_reconstruction =
  convert :: "PointVectorList \<Rightarrow> 'wn list"
  Poisson_reconstruction_function :: "'wn list \<Rightarrow> 'f"
  compute_implicit_function :: "'f \<Rightarrow> bool \<times> 'f"
  compute_average_spacing_wn :: "'wn list \<Rightarrow> int \<Rightarrow> FT"
  get_inner_point :: "'f \<Rightarrow> Point_3"
  bounding_sphere :: "'f \<Rightarrow> Sphere_3"
  make_surface_mesh :: "'f Surface_3 \<Rightarrow> Surface_mesh_default_criteria_3 \<Rightarrow> 'c"
  number_of_vertices :: "'c \<Rightarrow> nat"
  output_surface_facets_to_polyhedron :: "'c \<Rightarrow> 'poly \<Rightarrow> 'poly"

section \<open>Vector operations\<close>

definition range_assign :: "'a list \<Rightarrow> (nat \<Rightarrow> 'a) \<Rightarrow> 'a list" where
  "range_assign xs f = map f [0..<length xs]"

text \<open>
  \<open>v.erase(first, v.end())\<close> keeps the elements before \<open>first\<close>.  An iterator of the
  vector cannot lie beyond \<open>end()\<close>; for an index beyond the length nothing is erased.
\<close>

definition erase_to_end :: "nat \<Rightarrow> 'a list \<Rightarrow> 'a list" where
  "erase_to_end first xs = take first xs"

text \<open>
  The swap trick \<open>vector<Point_3>(points).swap(points)\<close> copies the vector and swaps
  the copy in: the elements are the same, only the capacity (not modelled) shrinks.
\<close>

definition swap_trick :: "'a list \<Rightarrow> 'a list" where
  "swap_trick xs = xs"

text \<open>
  \<open>v.resize(n)\<close> truncates to \<open>n\<close> elements or appends value-initialised ones.
\<close>

definition resize :: "nat \<Rightarrow> 'a \<Rightarrow> 'a list \<Rightarrow> 'a list" where
  "resize n v xs = take n xs @ replicate (n - length xs) v"

section \<open>The stages\<close>

subsection \<open>removeOutliers\<close>

definition removeOutliers :: "point_set_processing \<Rightarrow> PointList \<Rightarrow> real \<Rightarrow> int \<Rightarrow> PointList" where
  "removeOutliers L points removed_percentage nb_neighbors =
     (let (arranged, first_to_remove) = remove_outliers L points nb_neighbors removed_percentage;
          points = range_assign points arranged;
          points = erase_to_end first_to_remove points
      in swap_trick points)"

subsection \<open>simplifyCloud\<close>

definition simplifyCloud :: "point_set_processing \<Rightarrow> PointList \<Rightarrow> real \<Rightarrow> PointList" where
  "simplifyCloud L points cell_size =
     (let (arranged, first_to_remove) = grid_simplify_point_set L points cell_size;
          points = range_assign points arranged;
          points = erase_to_end first_to_remove points
      in swap_trick points)"

text \<open>
  The same function over a grid routine that may raise an exception.  A routine that
  raises gives the exception and the contents it has left in the range at that moment.
  The function has no handler: the exception leaves it at the call, before the erase,
  and the caller finds the cloud as the routine left it.
\<close>

definition simplifyCloud_raising ::
  "(PointList \<Rightarrow> real \<Rightarrow> ('e \<times> (nat \<Rightarrow> Point_3)) + ((nat \<Rightarrow> Point_3) \<times> nat))
     \<Rightarrow> PointList \<Rightarrow> real \<Rightarrow> ('e \<times> PointList) + PointList" where
  "simplifyCloud_raising grid points cell_size =
     (case grid points cell_size of
        Inl (exception, contents) \<Rightarrow> Inl (exception, range_assign points contents)
      | Inr (arranged, first_to_remove) \<Rightarrow>
          (let points = range_assign points arranged;
               points = erase_to_end first_to_remove points
           in Inr (swap_trick points)))"

subsection \<open>smoothCloud\<close>

text \<open>
  The loop \<open>for (int k=0; k<iter; k++)\<close>: \<open>k\<close> stays below \<open>iter\<close>, so that the
  increment cannot overflow an \<open>int\<close>.
\<close>

function smooth_loop :: "point_set_processing \<Rightarrow> int \<Rightarrow> int \<Rightarrow> int \<Rightarrow> PointList \<Rightarrow> PointList" where
  "smooth_loop L k iter nb_neighbors points =
     (if k < iter
      then smooth_loop L (k + 1) iter nb_neighbors
             (range_assign points (jet_smooth_point_set L points nb_neighbors))
      else points)"
  by pat_completeness auto
termination
  by (relation "measure (\<lambda>(L, k, iter, nb_neighbors, points). nat (iter - k))") auto

declare smooth_loop.simps [simp del]

definition smoothCloud :: "point_set_processing \<Rightarrow> PointList \<Rightarrow> int \<Rightarrow> int \<Rightarrow> PointList" where
  "smoothCloud L points nb_neighbors iter = smooth_loop L 0 iter nb_neighbors points"

subsection \<open>estimateNormals\<close>

text \<open>
  The loop \<open>for (int i=0; i<points.size(); i++)\<close> compares the \<open>int\<close> counter with
  an unsigned size.  When the cloud has more than \<open>INT_MAX\<close> points the increment
  overflows the counter, which is undefined behaviour: the model returns \<open>None\<close>.
\<close>

definition INT_MAX :: int where
  "INT_MAX = 2147483647"

function copy_points :: "int \<Rightarrow> PointList \<Rightarrow> PointVectorList \<Rightarrow> PointVectorList option" where
  "copy_points i points point_vectors =
     (if 0 \<le> i \<and> nat i < length points
      then (let point_vectors = point_vectors[nat i := (points ! nat i, snd (point_vectors ! nat i))]
            in if i = INT_MAX then None
               else copy_points (i + 1) points point_vectors)
      else Some point_vectors)"
  by pat_completeness auto
termination
  by (relation "measure (\<lambda>(i, points, point_vectors). length points - nat i)") auto

declare copy_points.simps [simp del]

definition estimateNormals ::
  "point_set_processing \<Rightarrow> PointList \<Rightarrow> PointVectorList \<Rightarrow> int \<Rightarrow> PointVectorList option" where
  "estimateNormals L points point_vectors nb_neighbors =
     (let point_vectors = resize (length points) (value_initialized L) point_vectors
      in case copy_points 0 points point_vectors of
           None \<Rightarrow> None
         | Some point_vectors \<Rightarrow>
             Some (range_assign point_vectors
                     (pca_estimate_normals L point_vectors nb_neighbors)))"

subsection \<open>orientNormals\<close>

definition orientNormals ::
  "point_set_processing \<Rightarrow> PointVectorList \<Rightarrow> int \<Rightarrow> bool \<Rightarrow> PointVectorList" where
  "orientNormals L points nb_neighbors trim =
     (let (arranged, unoriented_points_begin) = mst_orient_normals L points nb_neighbors;
          points = range_assign points arranged
      in if trim then erase_to_end unoriented_points_begin points else points)"

subsection \<open>computeAverageSpacing\<close>

definition computeAverageSpacing :: "point_set_processing \<Rightarrow> PointList \<Rightarrow> int \<Rightarrow> FT" where
  "computeAverageSpacing L points nb_neighbors = compute_average_spacing L points nb_neighbors"

subsection \<open>reconstructPoissonSurface\<close>

text \<open>
  The function is declared \<open>void\<close>: its only outputs are its reference arguments.  The
  oriented cloud is only read (by \<open>convert\<close>), so the model returns the polyhedron.
  Both \<open>return EXIT_FAILURE\<close> statements leave the function with the polyhedron as it
  was passed in; the value \<open>EXIT_FAILURE\<close> has no way to the caller of a \<open>void\<close>
  function.  \<open>std::sqrt\<close> is the real square root.  For a bounding sphere of radius
  zero the error bound of the surface is a division by zero (an infinity or a NaN in
  floating point, \<open>0\<close> in the reals of the model); no property below depends on it.
\<close>

definition reconstructPoissonSurface ::
  "('wn, 'f, 'c, 'poly) poisson_reconstruction \<Rightarrow> PointVectorList \<Rightarrow> 'poly \<Rightarrow> 'poly" where
  "reconstructPoissonSurface P point_vectors polyhedron =
     (let points = convert P point_vectors;
          sm_angle = 20;
          sm_radius = 30;
          sm_distance = 0.375;
          function = Poisson_reconstruction_function P points;
          (converged, function) = compute_implicit_function P function
      in if \<not> converged then polyhedron
         else
           let average_spacing = compute_average_spacing_wn P points 6;
               inner_point = get_inner_point P function;
               bsphere = bounding_sphere P function;
               radius = sqrt (squared_radius bsphere);
               sm_sphere_radius = 5 * radius;
               sm_dichotomy_error = sm_distance * average_spacing / 1000;
               surface = \<lparr>implicit_function = function,
                          bounding_sphere_of =
                            \<lparr>center = inner_point,
                             squared_radius = sm_sphere_radius * sm_sphere_radius\<rparr>,
                          error_bound = sm_dichotomy_error / sm_sphere_radius\<rparr>;
               criteria = \<lparr>angle_bound = sm_angle,
                           radius_bound = sm_radius * average_spacing,
                           distance_bound = sm_distance * average_spacing\<rparr>;
               c2t3 = make_surface_mesh P surface criteria
           in if number_of_vertices P c2t3 = 0 then polyhedron
              else output_surface_facets_to_polyhedron P c2t3 polyhedron)"

section \<open>Grid clustering\<close>

text \<open>
  Modelled from the spec: the cell of a point in the uniform grid of cubes of side \<open>s\<close>
  ("partition space into a uniform grid of cubes of side s").  The code of
  \<open>grid_simplify_point_set\<close> belongs to the geometry library and is missing.
\<close>

fun cell :: "real \<Rightarrow> Point_3 \<Rightarrow> int \<times> int \<times> int" where
  "cell s (Point_3 x y z) = (\<lfloor>x / s\<rfloor>, \<lfloor>y / s\<rfloor>, \<lfloor>z / s\<rfloor>)"

text \<open>
  Modelled from the spec: one pass over the cloud in its order that keeps, for each
  occupied cell, the first point met in it as the representative ("retain at most one
  representative point per occupied cell", "an arbitrary member", "deterministic given a
  fixed point ordering") and sets every other point aside.  The code of
  \<open>grid_simplify_point_set\<close> is missing.
\<close>

fun cluster :: "real \<Rightarrow> PointList \<Rightarrow> PointList \<Rightarrow> PointList \<Rightarrow> PointList \<times> PointList" where
  "cluster s [] kept removed = (kept, removed)"
| "cluster s (p # ps) kept removed =
     (if cell s p \<in> set (map (cell s) kept)
      then cluster s ps kept (removed @ [p])
      else cluster s ps (kept @ [p]) removed)"

text \<open>
  Modelled from the spec: the missing routine \<open>grid_simplify_point_set\<close>, which
  "returns the simplified cloud in place": the range holds the representatives first,
  then the points set aside, and the returned position is the end of the
  representatives.
\<close>

definition grid_clustering :: "PointList \<Rightarrow> real \<Rightarrow> (nat \<Rightarrow> Point_3) \<times> nat" where
  "grid_clustering points s =
     (let (kept, removed) = cluster s points [] []
      in ((\<lambda>i. (kept @ removed) ! i), length kept))"

text \<open>
  Modelled from the spec: the points that the grid clustering sets aside ("retain at
  most one representative point per occupied cell"): the point at index \<open>i\<close> is set
  aside when an earlier point of the cloud lies in its cell.  The code of
  \<open>grid_simplify_point_set\<close> is missing.
\<close>

definition duplicate_cell :: "real \<Rightarrow> PointList \<Rightarrow> nat \<Rightarrow> bool" where
  "duplicate_cell s points i = (cell s (points ! i) \<in> set (map (cell s) (take i points)))"

text \<open>
  Modelled from the spec: the error kind of a parameter outside its domain
  ("ConfigurationError: an input parameter violates its documented domain").
\<close>

datatype configuration_error = ConfigurationError

text \<open>
  Modelled from the spec: the missing grid routine together with its check of the cell
  size ("s \<le> 0 is invalid and must fail with a configuration error", "Must be detected
  before any destructive mutation begins and reported without partial modification of
  the input cloud"): for a cell size that is not positive the routine raises the error
  and leaves the range as it is, for a positive one it is the grid clustering.
\<close>

definition checked_grid_clustering ::
  "PointList \<Rightarrow> real
     \<Rightarrow> (configuration_error \<times> (nat \<Rightarrow> Point_3)) + ((nat \<Rightarrow> Point_3) \<times> nat)" where
  "checked_grid_clustering points s =
     (if s \<le> 0 then Inl (ConfigurationError, (\<lambda>i. points ! i))
      else Inr (grid_clustering points s))"

section \<open>Outlier removal, orientation and normal estimation\<close>

text \<open>
  Modelled from the spec: the arrangement that a filtering routine leaves in the range
  ("retained points keep their relative order and the set of retained points is exactly
  those not marked for removal", the cloud being shrunk by erasing a range at its end):
  the points that are not marked come first, in their order, the marked points follow,
  and the returned position is that of the first marked point.  The code of the
  filtering routines is missing.
\<close>

definition pack_unmarked :: "(nat \<Rightarrow> bool) \<Rightarrow> 'a list \<Rightarrow> (nat \<Rightarrow> 'a) \<times> nat" where
  "pack_unmarked marked xs =
     (let kept = nths xs {i. \<not> marked i};
          removed = nths xs {i. marked i}
      in ((\<lambda>i. (kept @ removed) ! i), length kept))"

text \<open>
  Modelled from the spec: the missing routine \<open>remove_outliers\<close> ("remove the p% of
  points with the highest (most isolated) scores", "Returns the filtered cloud (in
  place, cloud shrinks)").  Which points of a cloud have the highest scores for given
  \<open>k\<close> and \<open>p\<close> is the parameter \<open>isolated\<close>; the scores themselves are not
  modelled.
\<close>

definition outlier_removal ::
  "(PointList \<Rightarrow> int \<Rightarrow> real \<Rightarrow> nat \<Rightarrow> bool)
     \<Rightarrow> PointList \<Rightarrow> int \<Rightarrow> real \<Rightarrow> (nat \<Rightarrow> Point_3) \<times> nat" where
  "outlier_removal isolated points k p = pack_unmarked (isolated points k p) points"

text \<open>
  Modelled from the spec: flipping a normal ("flip a point's normal if it disagrees with
  its parent's after propagation").  The code of \<open>mst_orient_normals\<close> is missing.
\<close>

fun opposite :: "Vector_3 \<Rightarrow> Vector_3" where
  "opposite (Vector_3 x y z) = Vector_3 (- x) (- y) (- z)"

text \<open>
  Modelled from the spec: the oriented cloud before it is rearranged: every position is
  kept, the normals at the indices in \<open>flipped\<close> are flipped.  The code of
  \<open>mst_orient_normals\<close> is missing.
\<close>

definition flip_normals :: "(nat \<Rightarrow> bool) \<Rightarrow> PointVectorList \<Rightarrow> PointVectorList" where
  "flip_normals flipped pvs =
     map (\<lambda>i. (fst (pvs ! i), if flipped i then opposite (snd (pvs ! i)) else snd (pvs ! i)))
       [0..<length pvs]"

text \<open>
  Modelled from the spec: the missing routine \<open>mst_orient_normals\<close> ("propagate a
  consistent normal sign", "Points whose neighborhood is too sparse or inconsistent to
  confidently orient are marked unoriented and are conventionally placed at the end of
  the sequence by the underlying algorithm").  Which normals the propagation flips and
  which points it leaves unoriented are the parameters \<open>flipped\<close> and
  \<open>unoriented\<close>; the spanning tree is not modelled.
\<close>

definition mst_orientation ::
  "(PointVectorList \<Rightarrow> int \<Rightarrow> nat \<Rightarrow> bool) \<Rightarrow> (PointVectorList \<Rightarrow> int \<Rightarrow> nat \<Rightarrow> bool)
     \<Rightarrow> PointVectorList \<Rightarrow> int \<Rightarrow> (nat \<Rightarrow> PointVectorPair) \<times> nat" where
  "mst_orientation unoriented flipped pvs k =
     pack_unmarked (unoriented pvs k) (flip_normals (flipped pvs k) pvs)"

text \<open>
  Modelled from the spec: the missing routine \<open>pca_estimate_normals\<close> ("each point's
  normal is estimated as the minor eigenvector (direction of least variance) of the
  covariance of its k-nearest-neighbor position set", "Output cloud has identical
  cardinality and ordering to the input"): the routine leaves every position where it
  is and writes at each element a normal computed from the positions of the range.
  The computation of the eigenvector is the parameter \<open>minor_eigenvector\<close> and is
  not modelled.
\<close>

definition pca_normals ::
  "(PointList \<Rightarrow> int \<Rightarrow> nat \<Rightarrow> Vector_3) \<Rightarrow> PointVectorList \<Rightarrow> int \<Rightarrow> nat \<Rightarrow> PointVectorPair" where
  "pca_normals minor_eigenvector pvs k i = (fst (pvs ! i), minor_eigenvector (map fst pvs) k i)"

section \<open>Sample libraries\<close>

text \<open>
  Concrete libraries on which the stages can be run.  In \<open>recording_processing\<close> the
  outlier routine and the grid routine write the parameters they were called with into
  the coordinates of every point of the range and mark nothing for removal, so that the
  cloud after the stage shows what the stage passed to the routine.  The smoothing
  routine moves each point by one unit along the first axis, the normal estimation
  writes the same normal everywhere, the orientation routine leaves the range as it is
  and reports the last element as unoriented.
\<close>

fun shift :: "Point_3 \<Rightarrow> Point_3" where
  "shift (Point_3 x y z) = Point_3 (x + 1) y z"

definition recording_processing :: point_set_processing where
  "recording_processing =
     \<lparr>remove_outliers = (\<lambda>ps k p. ((\<lambda>i. Point_3 (of_int k) p 0), length ps)),
      grid_simplify_point_set = (\<lambda>ps s. ((\<lambda>i. Point_3 s s s), length ps)),
      jet_smooth_point_set = (\<lambda>ps k i. shift (ps ! i)),
      pca_estimate_normals = (\<lambda>pvs k i. (fst (pvs ! i), Vector_3 0 0 1)),
      mst_orient_normals = (\<lambda>pvs k. ((\<lambda>i. pvs ! i), length pvs - 1)),
      compute_average_spacing = (\<lambda>ps k. 1),
      value_initialized = (Point_3 0 0 0, Vector_3 0 0 0)\<rparr>"

text \<open>The library whose grid routine is the grid clustering above.\<close>

definition clustering_processing :: point_set_processing where
  "clustering_processing =
     recording_processing \<lparr>grid_simplify_point_set := grid_clustering\<rparr>"

text \<open>
  The library of the routines modelled from the spec: the outlier routine marks the
  second point of the cloud, the orientation leaves the first point unoriented and flips
  the normal of the third, the grid routine is the grid clustering.
\<close>

definition packing_processing :: point_set_processing where
  "packing_processing =
     clustering_processing
       \<lparr>remove_outliers := outlier_removal (\<lambda>ps k p i. i = 1),
        mst_orient_normals := mst_orientation (\<lambda>pvs k i. i = 0) (\<lambda>pvs k i. i = 2)\<rparr>"

text \<open>
  The library whose normal estimation is the routine modelled from the spec, with the
  third axis as the estimated direction everywhere.
\<close>

definition estimating_processing :: point_set_processing where
  "estimating_processing =
     recording_processing \<lparr>pca_estimate_normals := pca_normals (\<lambda>ps k i. Vector_3 0 0 1)\<rparr>"

text \<open>
  A reconstruction library whose solver fails on the empty cloud and converges on every
  other one, whose mesher returns the criteria it was called with, and whose extraction
  stores them in the polyhedron.  The average spacing is 2, the bounding sphere has
  radius 1.
\<close>

definition recording_reconstruction ::
  "(PointVectorPair, PointVectorList, Surface_mesh_default_criteria_3,
    Surface_mesh_default_criteria_3 option) poisson_reconstruction" where
  "recording_reconstruction =
     \<lparr>convert = (\<lambda>pvs. pvs),
      Poisson_reconstruction_function = (\<lambda>ps. ps),
      compute_implicit_function = (\<lambda>f. (f \<noteq> [], f)),
      compute_average_spacing_wn = (\<lambda>ps k. 2),
      get_inner_point = (\<lambda>f. Point_3 0 0 0),
      bounding_sphere = (\<lambda>f. \<lparr>center = Point_3 0 0 0, squared_radius = 1\<rparr>),
      make_surface_mesh = (\<lambda>surface criteria. criteria),
      number_of_vertices = (\<lambda>c. 1),
      output_surface_facets_to_polyhedron = (\<lambda>c polyhedron. Some c)\<rparr>"

section \<open>Properties of the vector operations and of the loops\<close>

lemma length_range_assign: "length (range_assign xs f) = length xs"
  by (simp add: range_assign_def)

lemma nth_range_assign: "i < length xs \<Longrightarrow> range_assign xs f ! i = f i"
  by (simp add: range_assign_def)

lemma length_resize: "length (resize n v xs) = n"
  by (simp add: resize_def)

lemma length_smooth_loop: "length (smooth_loop L k iter nb points) = length points"
proof (induction L k iter nb points rule: smooth_loop.induct)
  case (1 L k iter nb points)
  show ?case
  proof (cases "k < iter")
    case True
    then show ?thesis
      using 1 by (simp add: smooth_loop.simps [of L k] length_range_assign)
  next
    case False
    then show ?thesis
      by (simp add: smooth_loop.simps [of L k])
  qed
qed

lemma smooth_loop_done: "\<not> k < iter \<Longrightarrow> smooth_loop L k iter nb points = points"
  by (simp add: smooth_loop.simps [of L k])

text \<open>
  The copying loop started at \<open>i\<close> overwrites the positions from index \<open>i\<close> on and
  keeps every normal, provided that the size of the cloud is in the range of the counter.
\<close>

lemma copy_points_Some:
  "0 \<le> i \<Longrightarrow> length points \<le> nat INT_MAX \<Longrightarrow> length pv = length points \<Longrightarrow>
   copy_points i points pv =
     Some (map (\<lambda>j. if nat i \<le> j then (points ! j, snd (pv ! j)) else pv ! j)
             [0..<length points])"
proof (induction i points pv rule: copy_points.induct)
  case (1 i points pv)
  show ?case
  proof (cases "nat i < length points")
    case True
    let ?pv = "pv[nat i := (points ! nat i, snd (pv ! nat i))]"
    from True 1(3) have ne: "i \<noteq> INT_MAX" by auto
    have ih: "copy_points (i + 1) points ?pv =
       Some (map (\<lambda>j. if nat (i + 1) \<le> j then (points ! j, snd (?pv ! j)) else ?pv ! j)
               [0..<length points])"
      using 1(1) [OF _ refl ne] True 1(2,3,4) by simp
    have "map (\<lambda>j. if nat (i + 1) \<le> j then (points ! j, snd (?pv ! j)) else ?pv ! j)
            [0..<length points]
        = map (\<lambda>j. if nat i \<le> j then (points ! j, snd (pv ! j)) else pv ! j)
            [0..<length points]"
    proof (rule map_cong [OF refl])
      fix j assume "j \<in> set [0..<length points]"
      then have j: "j < length points" by simp
      consider "j < nat i" | "j = nat i" | "nat i < j" by linarith
      then show "(if nat (i + 1) \<le> j then (points ! j, snd (?pv ! j)) else ?pv ! j)
               = (if nat i \<le> j then (points ! j, snd (pv ! j)) else pv ! j)"
        using 1(2,4) True j by cases (simp_all add: nat_add_distrib)
    qed
    with ih True 1(2) ne show ?thesis
      by (simp add: copy_points.simps [of i] Let_def)
  next
    case False
    then have "map (\<lambda>j. if nat i \<le> j then (points ! j, snd (pv ! j)) else pv ! j)
                 [0..<length points] = pv"
      using 1(4) by (intro nth_equalityI) auto
    with False show ?thesis
      by (simp add: copy_points.simps [of i])
  qed
qed


text \<open>
  For a cloud in the range of the counter, the range handed to the normal estimation
  holds the input positions in their order and the normals that the resized output list
  held before.
\<close>

lemma estimateNormals_copied:
  assumes "length points \<le> nat INT_MAX"
  shows "estimateNormals L points point_vectors nb =
     Some (map (pca_estimate_normals L
                  (map (\<lambda>j. (points ! j,
                              snd (resize (length points) (value_initialized L) point_vectors ! j)))
                     [0..<length points]) nb)
             [0..<length points])"
proof -
  let ?pv = "resize (length points) (value_initialized L) point_vectors"
  let ?r = "map (\<lambda>j. (points ! j, snd (?pv ! j))) [0..<length points]"
  have c: "copy_points 0 points ?pv = Some ?r"
    using copy_points_Some [of 0 points ?pv] assms by (simp add: length_resize)
  show ?thesis
    unfolding estimateNormals_def Let_def c option.case
    by (simp add: range_assign_def)
qed

text \<open>
  With the normal estimation modelled from the spec, the oriented cloud has the input
  positions in their order and does not depend on the prior output list.
\<close>

lemma estimateNormals_in_range:
  assumes "pca_estimate_normals L = pca_normals minor_eigenvector"
    and "length points \<le> nat INT_MAX"
  shows "estimateNormals L points point_vectors nb =
     Some (map (\<lambda>i. (points ! i, minor_eigenvector points nb i)) [0..<length points])"
proof -
  let ?pv = "resize (length points) (value_initialized L) point_vectors"
  let ?r = "map (\<lambda>j. (points ! j, snd (?pv ! j))) [0..<length points]"
  have f: "map fst ?r = points"
    by (intro nth_equalityI) auto
  have "map (pca_normals minor_eigenvector ?r nb) [0..<length points]
      = map (\<lambda>i. (points ! i, minor_eigenvector points nb i)) [0..<length points]"
    unfolding pca_normals_def f by simp
  then show ?thesis
    using estimateNormals_copied [OF assms(2), of L point_vectors nb] assms(1) by simp
qed


section \<open>Properties of the grid clustering\<close>

lemma cluster_kept_distinct:
  "distinct (map (cell s) kept) \<Longrightarrow>
   distinct (map (cell s) (fst (cluster s ps kept removed)))"
  by (induction ps arbitrary: kept removed) auto

lemma cluster_distinct_unchanged:
  "distinct (map (cell s) (kept @ ps)) \<Longrightarrow> cluster s ps kept removed = (kept @ ps, removed)"
  by (induction ps arbitrary: kept removed) auto

lemma cluster_length:
  "length (fst (cluster s ps kept removed)) + length (snd (cluster s ps kept removed))
     = length kept + length removed + length ps"
  by (induction ps arbitrary: kept removed) auto

text \<open>Every occupied cell keeps a representative.\<close>

lemma cluster_cells:
  "set (map (cell s) (fst (cluster s ps kept removed))) = set (map (cell s) (kept @ ps))"
  by (induction ps arbitrary: kept removed) auto

lemma simplifyCloud_clustering:
  assumes "grid_simplify_point_set L = grid_clustering"
  shows "simplifyCloud L points s = fst (cluster s points [] [])"
proof -
  obtain kept removed where c: "cluster s points [] [] = (kept, removed)"
    by (cases "cluster s points [] []")
  have "length kept + length removed = length points"
    using cluster_length [of s points "[]" "[]"] c by simp
  then have "map (\<lambda>i. (kept @ removed) ! i) [0..<length points] = kept @ removed"
    by (intro nth_equalityI) auto
  then show ?thesis
    using assms c
    by (simp add: simplifyCloud_def grid_clustering_def range_assign_def erase_to_end_def
          swap_trick_def)
qed

text \<open>The representatives are the points that no earlier point shares a cell with.\<close>

lemma cluster_kept_nths:
  "fst (cluster s ps kept removed) =
     kept @ nths ps {j. cell s (ps ! j) \<notin> set (map (cell s) kept) \<union> set (map (cell s) (take j ps))}"
proof (induction ps arbitrary: kept removed)
  case Nil
  show ?case by simp
next
  case (Cons p ps)
  show ?case
  proof (cases "cell s p \<in> set (map (cell s) kept)")
    case True
    then have "{j. cell s (ps ! j) \<notin> set (map (cell s) kept) \<union> set (map (cell s) (take j ps))}
             = {j. Suc j \<in> {j. cell s ((p # ps) ! j)
                  \<notin> set (map (cell s) kept) \<union> set (map (cell s) (take j (p # ps)))}}"
      by auto
    with True show ?thesis
      by (simp add: Cons.IH nths_Cons)
  next
    case False
    then have "{j. cell s (ps ! j)
                 \<notin> set (map (cell s) (kept @ [p])) \<union> set (map (cell s) (take j ps))}
             = {j. Suc j \<in> {j. cell s ((p # ps) ! j)
                  \<notin> set (map (cell s) kept) \<union> set (map (cell s) (take j (p # ps)))}}"
      by auto
    with False show ?thesis
      by (simp add: Cons.IH nths_Cons)
  qed
qed

lemma simplifyCloud_unmarked:
  assumes "grid_simplify_point_set L = grid_clustering"
  shows "simplifyCloud L points s = nths points {i. \<not> duplicate_cell s points i}"
  using cluster_kept_nths [of s points "[]" "[]"]
  by (simp add: simplifyCloud_clustering [OF assms] duplicate_cell_def)

section \<open>Properties of the packing\<close>

lemma length_nths_split:
  "length (nths xs {i. \<not> marked i}) + length (nths xs {i. marked i}) = length xs"
  by (induction xs arbitrary: marked) (auto simp: nths_Cons)

text \<open>Erasing from the returned position leaves the points that are not marked.\<close>

lemma erase_pack_unmarked:
  assumes "pack_unmarked marked xs = (arranged, first)"
  shows "erase_to_end first (range_assign xs arranged) = nths xs {i. \<not> marked i}"
proof -
  let ?kept = "nths xs {i. \<not> marked i}" and ?removed = "nths xs {i. marked i}"
  have a: "arranged = (\<lambda>i. (?kept @ ?removed) ! i)" and f: "first = length ?kept"
    using assms by (auto simp: pack_unmarked_def Let_def)
  have "length (?kept @ ?removed) = length xs"
    using length_nths_split [of xs marked] by simp
  then have "map (\<lambda>i. (?kept @ ?removed) ! i) [0..<length xs] = ?kept @ ?removed"
    by (intro nth_equalityI) auto
  then show ?thesis
    by (simp add: a f erase_to_end_def range_assign_def)
qed

lemma map_fst_flip_normals: "map fst (flip_normals flipped pvs) = map fst pvs"
  by (intro nth_equalityI) (auto simp: flip_normals_def)

lemma length_flip_normals: "length (flip_normals flipped pvs) = length pvs"
  by (simp add: flip_normals_def)

text \<open>
  The packing routine sees the flipped cloud, the stage assigns into the cloud it was
  given: both have the same length.
\<close>

lemma range_assign_same_length:
  "length xs = length ys \<Longrightarrow> range_assign xs f = range_assign ys f"
  by (simp add: range_assign_def)

section \<open>Properties of simplifyCloud over a routine that may raise\<close>

text \<open>Over a routine that returns normally the two models of simplifyCloud agree.\<close>

lemma simplifyCloud_raising_normal:
  "simplifyCloud_raising (\<lambda>ps s. Inr (grid_simplify_point_set L ps s)) points cell_size
     = Inr (simplifyCloud L points cell_size)"
  by (simp add: simplifyCloud_raising_def simplifyCloud_def split: prod.split)

text \<open>For a positive cell size the checked routine behaves as the grid clustering.\<close>

lemma simplifyCloud_raising_positive:
  assumes "grid_simplify_point_set L = grid_clustering" and "0 < cell_size"
  shows "simplifyCloud_raising checked_grid_clustering points cell_size
     = Inr (simplifyCloud L points cell_size)"
  using assms
  by (simp add: simplifyCloud_raising_def simplifyCloud_def checked_grid_clustering_def
        split: prod.split)

section \<open>Sample runs\<close>

text \<open>Two smoothing passes of the recording library move each point by two units.\<close>

lemma smoothCloud_sample:
  "smoothCloud recording_processing [Point_3 0 0 0, Point_3 1 0 0] 8 2
     = [Point_3 2 0 0, Point_3 3 0 0]"
  by (simp add: smoothCloud_def smooth_loop.simps recording_processing_def range_assign_def
        upt_rec)

text \<open>A stale output list of three pairs is cut to two and overwritten.\<close>

lemma estimateNormals_sample:
  "estimateNormals recording_processing [Point_3 0 0 0, Point_3 1 2 3]
     [(Point_3 9 9 9, Vector_3 1 0 0), (Point_3 8 8 8, Vector_3 0 1 0),
      (Point_3 7 7 7, Vector_3 0 1 0)] 18
   = Some [(Point_3 0 0 0, Vector_3 0 0 1), (Point_3 1 2 3, Vector_3 0 0 1)]"
  by (simp add: estimateNormals_def resize_def copy_points.simps INT_MAX_def
        recording_processing_def range_assign_def upt_rec)

text \<open>
  Over the normal estimation modelled from the spec the stale output list leaves no
  trace.
\<close>

lemma estimateNormals_in_range_sample:
  "estimateNormals estimating_processing [Point_3 0 0 0, Point_3 1 2 3]
     [(Point_3 9 9 9, Vector_3 1 0 0), (Point_3 8 8 8, Vector_3 0 1 0),
      (Point_3 7 7 7, Vector_3 0 1 0)] 18
   = Some [(Point_3 0 0 0, Vector_3 0 0 1), (Point_3 1 2 3, Vector_3 0 0 1)]"
proof -
  have "pca_estimate_normals estimating_processing = pca_normals (\<lambda>ps k i. Vector_3 0 0 1)"
    by (simp add: estimating_processing_def)
  then show ?thesis
    using estimateNormals_in_range [of estimating_processing "\<lambda>ps k i. Vector_3 0 0 1"
        "[Point_3 0 0 0, Point_3 1 2 3]"]
    by (simp add: INT_MAX_def upt_rec)
qed

text \<open>The outlier routine of the packing library marks the second of three points.\<close>

lemma removeOutliers_sample:
  "removeOutliers packing_processing [Point_3 0 0 0, Point_3 9 9 9, Point_3 1 2 3] 5 2
   = [Point_3 0 0 0, Point_3 1 2 3]"
  by (simp add: removeOutliers_def outlier_removal_def pack_unmarked_def nths_Cons
        erase_to_end_def swap_trick_def range_assign_def packing_processing_def
        clustering_processing_def recording_processing_def upt_rec)

text \<open>A cell size of zero is rejected and the cloud is as it was.\<close>

lemma simplifyCloud_raising_sample:
  "simplifyCloud_raising checked_grid_clustering [Point_3 0 0 0, Point_3 1 2 3] 0
   = Inl (ConfigurationError, [Point_3 0 0 0, Point_3 1 2 3])"
  by (simp add: simplifyCloud_raising_def checked_grid_clustering_def range_assign_def upt_rec)

text \<open>The orientation routine of the recording library reports the last pair as unoriented.\<close>

lemma orientNormals_sample:
  "orientNormals recording_processing
     [(Point_3 0 0 0, Vector_3 0 0 1), (Point_3 1 2 3, Vector_3 0 0 1)] 18 True
   = [(Point_3 0 0 0, Vector_3 0 0 1)]
   \<and> orientNormals recording_processing
     [(Point_3 0 0 0, Vector_3 0 0 1), (Point_3 1 2 3, Vector_3 0 0 1)] 18 False
   = [(Point_3 0 0 0, Vector_3 0 0 1), (Point_3 1 2 3, Vector_3 0 0 1)]"
  by (simp add: orientNormals_def erase_to_end_def range_assign_def recording_processing_def
        upt_rec)

text \<open>Five points in two cells of side 1: the first point of each cell is kept.\<close>

lemma simplifyCloud_sample:
  "simplifyCloud clustering_processing
     [Point_3 0 0 0, Point_3 (1/2) 0 0, Point_3 3 1 0, Point_3 (1/4) (1/4) (1/4),
      Point_3 (7/2) (3/2) 0] 1
   = [Point_3 0 0 0, Point_3 3 1 0]"
  by (simp add: simplifyCloud_def grid_clustering_def range_assign_def erase_to_end_def
        swap_trick_def clustering_processing_def recording_processing_def upt_rec)

section \<open>Properties of the reconstruction\<close>

text \<open>
  When the solver does not converge the function returns at once: the polyhedron is the
  one that was passed in.
\<close>

lemma reconstruct_not_converged:
  "\<not> fst (compute_implicit_function P
            (Poisson_reconstruction_function P (convert P point_vectors)))
   \<Longrightarrow> reconstructPoissonSurface P point_vectors polyhedron = polyhedron"
  by (cases "compute_implicit_function P
               (Poisson_reconstruction_function P (convert P point_vectors))")
     (simp add: reconstructPoissonSurface_def Let_def)

section \<open>The claims\<close>

subsection \<open>C1: the meshing criteria\<close>

text \<open>
  C1 says that reconstructPoissonSurface accepts three tuning parameters of the caller
  (minimum angle, maximum triangle size and maximum approximation error, the last two
  as multipliers of the average spacing) and that the meshing criteria equal the supplied
  values.  The function has two parameters, the oriented cloud and the polyhedron; the
  three values are local constants.  What holds: on every call whose solve converges,
  the mesh is the one the mesher produces under the criteria angle 20, size 30 times
  the average spacing, error 0.375 times the average spacing.
\<close>

theorem reconstruct_constant_criteria:
  assumes "fst (compute_implicit_function P
                  (Poisson_reconstruction_function P (convert P point_vectors)))"
  shows "\<exists>surface.
     reconstructPoissonSurface P point_vectors polyhedron =
       (let average_spacing = compute_average_spacing_wn P (convert P point_vectors) 6;
            c2t3 = make_surface_mesh P surface
                     \<lparr>angle_bound = 20,
                      radius_bound = 30 * average_spacing,
                      distance_bound = 0.375 * average_spacing\<rparr>
        in if number_of_vertices P c2t3 = 0 then polyhedron
           else output_surface_facets_to_polyhedron P c2t3 polyhedron)"
proof (cases "compute_implicit_function P
                (Poisson_reconstruction_function P (convert P point_vectors))")
  case (Pair converged f)
  with assms have "converged" by simp
  with Pair show ?thesis
    unfolding reconstructPoissonSurface_def Let_def
    by (simp only: prod.case simp_thms if_False) blast
qed

theorem reconstruct_constant_criteria_witness:
  "fst (compute_implicit_function recording_reconstruction
          (Poisson_reconstruction_function recording_reconstruction
             (convert recording_reconstruction [(Point_3 0 0 0, Vector_3 0 0 1)])))
   \<and> (\<exists>surface.
     reconstructPoissonSurface recording_reconstruction [(Point_3 0 0 0, Vector_3 0 0 1)] None =
       (let average_spacing = compute_average_spacing_wn recording_reconstruction
               (convert recording_reconstruction [(Point_3 0 0 0, Vector_3 0 0 1)]) 6;
            c2t3 = make_surface_mesh recording_reconstruction surface
                     \<lparr>angle_bound = 20,
                      radius_bound = 30 * average_spacing,
                      distance_bound = 0.375 * average_spacing\<rparr>
        in if number_of_vertices recording_reconstruction c2t3 = 0 then None
           else output_surface_facets_to_polyhedron recording_reconstruction c2t3 None))"
proof -
  have h: "fst (compute_implicit_function recording_reconstruction
          (Poisson_reconstruction_function recording_reconstruction
             (convert recording_reconstruction [(Point_3 0 0 0, Vector_3 0 0 1)])))"
    by (simp add: recording_reconstruction_def)
  show ?thesis
    using h reconstruct_constant_criteria [OF h, of None] by blast
qed

text \<open>
  With the recording library (average spacing 2) the mesher is called with the criteria
  (20, 60, 0.75).  A caller who wants the angle 25, the size multiplier 10 and the
  distance multiplier 0.5 would need the criteria (25, 20, 1), and has no argument to
  ask for them.
\<close>

theorem reconstruct_constant_criteria_counterexample:
  "reconstructPoissonSurface recording_reconstruction [(Point_3 0 0 0, Vector_3 0 0 1)] None
     = Some \<lparr>angle_bound = 20, radius_bound = 60, distance_bound = 0.75\<rparr>
   \<and> Some \<lparr>angle_bound = 20, radius_bound = 60, distance_bound = 0.75\<rparr>
     \<noteq> Some \<lparr>angle_bound = 25, radius_bound = 10 * 2, distance_bound = 0.5 * 2\<rparr>"
  by (simp add: reconstructPoissonSurface_def recording_reconstruction_def)

subsection \<open>C2: the solver does not converge\<close>

text \<open>
  C2 says that, when the implicit-function solve does not converge,
  reconstructPoissonSurface reports a convergence error to its caller, produces no mesh
  and leaves the input cloud unaffected.  The code executes \<open>return EXIT_FAILURE\<close> in
  a function declared \<open>void\<close>, so that nothing is reported: the caller gets back the
  polyhedron as it was passed in, and no other result.  The evaluation below is on the
  empty cloud, on which the solver of the recording library fails.
\<close>

theorem reconstruct_failure_not_reported:
  "\<not> fst (compute_implicit_function recording_reconstruction
            (Poisson_reconstruction_function recording_reconstruction
               (convert recording_reconstruction [])))
   \<and> reconstructPoissonSurface recording_reconstruction [] None = None"
  by (simp add: reconstructPoissonSurface_def recording_reconstruction_def)

subsection \<open>C3: a cell size that is not positive\<close>

text \<open>
  C3: for every point cloud, simplifyCloud with a cell size \<open>s \<le> 0\<close> fails with a
  configuration error, and the failure is detected before the cloud is modified, so
  that the caller finds the cloud as it was.  simplifyCloud has no check of its own: the
  first thing it does is to call the grid routine with the cloud and \<open>s\<close>, and it has
  no handler.  The check is the routine's, which is modelled from the spec; the
  statement is that the stage passes the routine's failure on with the cloud untouched.
\<close>

theorem simplifyCloud_rejects_nonpositive_cell_size:
  "cell_size \<le> 0 \<Longrightarrow>
     simplifyCloud_raising checked_grid_clustering points cell_size
       = Inl (ConfigurationError, points)"
  by (simp add: simplifyCloud_raising_def checked_grid_clustering_def range_assign_def
        map_nth)

theorem simplifyCloud_rejects_nonpositive_cell_size_witness:
  "(- 1 :: real) \<le> 0
   \<and> simplifyCloud_raising checked_grid_clustering
       [Point_3 0 0 0, Point_3 (1/2) 0 0, Point_3 3 1 0] (- 1)
     = Inl (ConfigurationError, [Point_3 0 0 0, Point_3 (1/2) 0 0, Point_3 3 1 0])"
  using simplifyCloud_rejects_nonpositive_cell_size
    [of "- 1" "[Point_3 0 0 0, Point_3 (1/2) 0 0, Point_3 3 1 0]"]
  by simp

subsection \<open>C4: a neighbourhood as large as the cloud\<close>

text \<open>
  C4 says that removeOutliers, for a neighbourhood size \<open>k\<close> that is at least the size
  of the cloud, rejects the call or clamps \<open>k\<close> below the size of the cloud, and never
  runs the outlier routine with an unmodified such \<open>k\<close>.  The function neither checks
  nor changes \<open>k\<close>.  What holds: for every such \<open>k\<close> it calls the outlier routine
  with \<open>k\<close> as given and keeps the elements of the range before the position the
  routine returns.
\<close>

theorem removeOutliers_unchecked_neighborhood:
  "int (length points) \<le> nb_neighbors \<Longrightarrow>
     removeOutliers L points removed_percentage nb_neighbors =
       take (snd (remove_outliers L points nb_neighbors removed_percentage))
            (map (fst (remove_outliers L points nb_neighbors removed_percentage))
               [0..<length points])"
  by (simp add: removeOutliers_def erase_to_end_def swap_trick_def range_assign_def
        split: prod.split)

theorem removeOutliers_unchecked_neighborhood_witness:
  "int (length [Point_3 0 0 0, Point_3 1 2 3]) \<le> 5
   \<and> removeOutliers recording_processing [Point_3 0 0 0, Point_3 1 2 3] 50 5 =
       take (snd (remove_outliers recording_processing [Point_3 0 0 0, Point_3 1 2 3] 5 50))
            (map (fst (remove_outliers recording_processing
                         [Point_3 0 0 0, Point_3 1 2 3] 5 50))
               [0..<length [Point_3 0 0 0, Point_3 1 2 3]])"
  using removeOutliers_unchecked_neighborhood
    [of "[Point_3 0 0 0, Point_3 1 2 3]" 5 recording_processing 50]
  by simp

text \<open>
  With the recording library and a cloud of two points, the cloud after the call with
  \<open>k = 5\<close> holds the points the outlier routine wrote: the routine was run with
  \<open>k = 5\<close>.
\<close>

theorem removeOutliers_unchecked_neighborhood_counterexample:
  "int (length [Point_3 0 0 0, Point_3 1 2 3]) \<le> 5
   \<and> removeOutliers recording_processing [Point_3 0 0 0, Point_3 1 2 3] 50 5
       = [Point_3 5 50 0, Point_3 5 50 0]"
  by (simp add: removeOutliers_def erase_to_end_def swap_trick_def range_assign_def
        recording_processing_def upt_rec)

subsection \<open>C5: the retained points\<close>

text \<open>
  C5: every stage that shrinks the cloud (removeOutliers, simplifyCloud, orientNormals
  with trim) preserves the relative order of the retained points, and the retained
  points are exactly the input points that the algorithm of the stage did not mark for
  removal.  The marking and the arrangement of the range are the library routine's,
  which is modelled from the spec; the stage erases the range from the position the
  routine returns.  The cloud after each stage is the list of the input points at the
  indices that are not marked, in the order of the input, hence a subsequence of the
  input.  The orientation flips normals, so for orientNormals the statement is about the
  cloud with its normals flipped, and about the positions.
\<close>

theorem filtering_keeps_unmarked_in_order:
  assumes "remove_outliers L = outlier_removal isolated"
    and "grid_simplify_point_set L = grid_clustering"
    and "mst_orient_normals L = mst_orientation unoriented flipped"
  shows "removeOutliers L points removed_percentage nb_neighbors
           = nths points {i. \<not> isolated points nb_neighbors removed_percentage i}
       \<and> subseq (removeOutliers L points removed_percentage nb_neighbors) points
       \<and> simplifyCloud L points cell_size
           = nths points {i. \<not> duplicate_cell cell_size points i}
       \<and> subseq (simplifyCloud L points cell_size) points
       \<and> orientNormals L point_vectors nb_neighbors True
           = nths (flip_normals (flipped point_vectors nb_neighbors) point_vectors)
               {i. \<not> unoriented point_vectors nb_neighbors i}
       \<and> map fst (orientNormals L point_vectors nb_neighbors True)
           = nths (map fst point_vectors) {i. \<not> unoriented point_vectors nb_neighbors i}
       \<and> subseq (map fst (orientNormals L point_vectors nb_neighbors True))
           (map fst point_vectors)"
proof -
  have r: "removeOutliers L points removed_percentage nb_neighbors
         = nths points {i. \<not> isolated points nb_neighbors removed_percentage i}"
  proof (cases "pack_unmarked (isolated points nb_neighbors removed_percentage) points")
    case (Pair arranged first)
    then show ?thesis
      using erase_pack_unmarked [OF Pair]
      by (simp add: removeOutliers_def assms(1) outlier_removal_def swap_trick_def)
  qed
  have g: "simplifyCloud L points cell_size
         = nths points {i. \<not> duplicate_cell cell_size points i}"
    by (rule simplifyCloud_unmarked [OF assms(2)])
  let ?flipped = "flip_normals (flipped point_vectors nb_neighbors) point_vectors"
  have m: "orientNormals L point_vectors nb_neighbors True
         = nths ?flipped {i. \<not> unoriented point_vectors nb_neighbors i}"
  proof (cases "pack_unmarked (unoriented point_vectors nb_neighbors) ?flipped")
    case (Pair arranged first)
    have "range_assign point_vectors arranged = range_assign ?flipped arranged"
      by (rule range_assign_same_length) (simp add: length_flip_normals)
    then show ?thesis
      using erase_pack_unmarked [OF Pair] Pair
      by (simp add: orientNormals_def assms(3) mst_orientation_def)
  qed
  have p: "map fst (orientNormals L point_vectors nb_neighbors True)
         = nths (map fst point_vectors) {i. \<not> unoriented point_vectors nb_neighbors i}"
    by (simp add: m nths_map [symmetric] map_fst_flip_normals)
  show ?thesis
    unfolding p unfolding r g m
    by (auto simp: subseq_conv_nths)
qed

theorem filtering_keeps_unmarked_in_order_witness:
  "remove_outliers packing_processing = outlier_removal (\<lambda>ps k p i. i = 1)
   \<and> grid_simplify_point_set packing_processing = grid_clustering
   \<and> mst_orient_normals packing_processing
       = mst_orientation (\<lambda>pvs k i. i = 0) (\<lambda>pvs k i. i = 2)
   \<and> removeOutliers packing_processing
         [Point_3 0 0 0, Point_3 (1/2) 0 0, Point_3 3 1 0] 5 18
       = [Point_3 0 0 0, Point_3 3 1 0]
   \<and> simplifyCloud packing_processing
         [Point_3 0 0 0, Point_3 (1/2) 0 0, Point_3 3 1 0] 1
       = [Point_3 0 0 0, Point_3 3 1 0]
   \<and> orientNormals packing_processing
         [(Point_3 0 0 0, Vector_3 0 0 1), (Point_3 1 0 0, Vector_3 0 1 0),
          (Point_3 2 0 0, Vector_3 1 0 0)] 18 True
       = [(Point_3 1 0 0, Vector_3 0 1 0), (Point_3 2 0 0, Vector_3 (- 1) 0 0)]"
proof -
  have a: "remove_outliers packing_processing = outlier_removal (\<lambda>ps k p i. i = 1)"
    and b: "grid_simplify_point_set packing_processing = grid_clustering"
    and c: "mst_orient_normals packing_processing
              = mst_orientation (\<lambda>pvs k i. i = 0) (\<lambda>pvs k i. i = 2)"
    by (simp_all add: packing_processing_def clustering_processing_def)
  show ?thesis
    using a b c
      filtering_keeps_unmarked_in_order [OF a b c,
        where points = "[Point_3 0 0 0, Point_3 (1/2) 0 0, Point_3 3 1 0]"
          and removed_percentage = 5 and nb_neighbors = 18 and cell_size = 1
          and point_vectors = "[(Point_3 0 0 0, Vector_3 0 0 1),
            (Point_3 1 0 0, Vector_3 0 1 0), (Point_3 2 0 0, Vector_3 1 0 0)]"]
    by (simp add: nths_Cons flip_normals_def duplicate_cell_def upt_rec)
qed

subsection \<open>C6: smoothing preserves the point count\<close>

text \<open>
  C6: for every cloud, every neighbourhood size and every iteration count
  \<open>iter \<ge> 0\<close>, smoothCloud returns a cloud with the same number of points, and for
  \<open>iter = 0\<close> it returns the cloud unchanged.
\<close>

theorem smoothCloud_preserves_count:
  "0 \<le> iter \<Longrightarrow>
     length (smoothCloud L points nb_neighbors iter) = length points
     \<and> smoothCloud L points nb_neighbors 0 = points"
  by (simp add: smoothCloud_def length_smooth_loop smooth_loop_done)

theorem smoothCloud_preserves_count_witness:
  "(0::int) \<le> 2
   \<and> length (smoothCloud recording_processing [Point_3 0 0 0, Point_3 1 0 0] 8 2) = 2
   \<and> smoothCloud recording_processing [Point_3 0 0 0, Point_3 1 0 0] 8 0
       = [Point_3 0 0 0, Point_3 1 0 0]"
  using smoothCloud_preserves_count
    [of 2 recording_processing "[Point_3 0 0 0, Point_3 1 0 0]" 8]
  by simp

subsection \<open>C7: trimming the unoriented points\<close>

text \<open>
  C7: orientNormals with \<open>trim = true\<close> discards exactly the suffix of the range that
  starts at the first unoriented point, so that the cloud does not grow; with
  \<open>trim = false\<close> it keeps the whole range, and the length of the cloud is unchanged.
\<close>

theorem orientNormals_trim:
  "orientNormals L points nb_neighbors True
       @ drop (snd (mst_orient_normals L points nb_neighbors))
              (orientNormals L points nb_neighbors False)
     = orientNormals L points nb_neighbors False
   \<and> length (orientNormals L points nb_neighbors True) \<le> length points
   \<and> orientNormals L points nb_neighbors False
       = range_assign points (fst (mst_orient_normals L points nb_neighbors))
   \<and> length (orientNormals L points nb_neighbors False) = length points"
  by (simp add: orientNormals_def erase_to_end_def length_range_assign split: prod.split)

subsection \<open>C8: grid simplification is idempotent\<close>

text \<open>
  C8: for every cloud and every cell size \<open>s > 0\<close>, simplifyCloud applied with the cell
  size \<open>s\<close> to its own output leaves that output unchanged.  The grid routine is the
  grid clustering modelled above.
\<close>

theorem simplifyCloud_idempotent:
  assumes "grid_simplify_point_set L = grid_clustering" and "0 < s"
  shows "simplifyCloud L (simplifyCloud L points s) s = simplifyCloud L points s"
proof -
  let ?kept = "fst (cluster s points [] [])"
  have "distinct (map (cell s) ?kept)"
    by (rule cluster_kept_distinct) simp
  then have "cluster s ?kept [] [] = (?kept, [])"
    using cluster_distinct_unchanged [of s "[]" ?kept "[]"] by simp
  then show ?thesis
    by (simp add: simplifyCloud_clustering [OF assms(1)])
qed

theorem simplifyCloud_idempotent_witness:
  "grid_simplify_point_set clustering_processing = grid_clustering \<and> (0::real) < 1
   \<and> simplifyCloud clustering_processing
       (simplifyCloud clustering_processing
          [Point_3 0 0 0, Point_3 (1/2) 0 0, Point_3 3 1 0, Point_3 (7/2) (3/2) 0] 1) 1
     = simplifyCloud clustering_processing
          [Point_3 0 0 0, Point_3 (1/2) 0 0, Point_3 3 1 0, Point_3 (7/2) (3/2) 0] 1"
proof -
  have g: "grid_simplify_point_set clustering_processing = grid_clustering"
    by (simp add: clustering_processing_def)
  show ?thesis
    using g simplifyCloud_idempotent [OF g, of 1] by simp
qed

subsection \<open>C9: normal estimation keeps the positions\<close>


subsection \<open>C10: normal estimation ignores the prior output list\<close>


end
